theory Spec2Isabelle
  imports Complex_Main
begin

section \<open>Python values used by the engine\<close>

text \<open>
  A Python \<^verbatim>\<open>str\<close> is a sequence of Unicode code points, so a string is a list of
  naturals here: slicing and \<^verbatim>\<open>in\<close> then count what Python counts. ASCII literals
  are written through \<open>str\<close>; a code point beyond ASCII is written as its number
  (224 is LATIN SMALL LETTER A WITH GRAVE, 10060 the cross mark of the log texts).
\<close>

type_synonym pystr = "nat list"

definition str :: "string \<Rightarrow> pystr" where
  "str s = map of_char s"

text \<open>\<^verbatim>\<open>s.startswith(p)\<close> and the substring test \<^verbatim>\<open>sub in s\<close>.\<close>

fun starts_with :: "pystr \<Rightarrow> pystr \<Rightarrow> bool" where
  "starts_with s [] = True"
| "starts_with [] (p # ps) = False"
| "starts_with (c # cs) (p # ps) = (c = p \<and> starts_with cs ps)"

fun contains :: "pystr \<Rightarrow> pystr \<Rightarrow> bool" where
  "contains [] sub = (sub = [])"
| "contains (c # cs) sub = (starts_with (c # cs) sub \<or> contains cs sub)"

text \<open>
  The functions of the Python runtime that the engine calls and that are not part of the
  repository are parameters of the model: \<^verbatim>\<open>str.lower\<close> (the Unicode case tables) and
  \<^verbatim>\<open>json.loads\<close> (\<open>None\<close> when it raises), and the f-string of the system prompt.
  Every theorem below holds for whatever these functions are.
\<close>

datatype json =
    JNull
  | JBool bool
  | JNum rat
  | JStr pystr
  | JArr "json list"
  | JObj "(pystr \<times> json) list"

text \<open>
  \<open>ascii_lower\<close> agrees with \<^verbatim>\<open>str.lower\<close> on ASCII text and is the instance used
  wherever a theorem is run on a concrete message.
\<close>

definition ascii_lower :: "pystr \<Rightarrow> pystr" where
  "ascii_lower s = map (\<lambda>c. if 65 \<le> c \<and> c \<le> 90 then c + 32 else c) s"

section \<open>Routing decision (\<^verbatim>\<open>MavkusAI.should_route_to_gemini\<close>)\<close>

definition science_keywords :: "pystr list" where
  "science_keywords =
    [str ''fisica'', str ''chimica'', str ''biologia'', str ''matematica'',
     str ''atomo'', str ''molecola'', str ''cellula'', str ''equazione'',
     str ''teorema'', str ''energia'', str ''forza'', str ''gravit'' @ [224],
     str ''relativit'' @ [224], str ''quantistica'', str ''organico'']"

definition strong_signals :: "pystr list" where
  "strong_signals = [str ''fisica'', str ''chimica'', str ''biologia'']"

definition science_count :: "pystr \<Rightarrow> nat" where
  "science_count question_lower =
     length (filter (\<lambda>kw. contains question_lower kw) science_keywords)"

definition should_route_to_gemini :: "(pystr \<Rightarrow> pystr) \<Rightarrow> pystr \<Rightarrow> bool" where
  "should_route_to_gemini lower question =
     (let question_lower = lower question
      in science_count question_lower \<ge> 2
         \<or> list_ex (\<lambda>kw. contains question_lower kw) strong_signals)"

section \<open>Specialist adapter (\<^verbatim>\<open>GeminiSpecialist\<close>)\<close>

text \<open>
  An external call either returns a text or raises; \<open>Inl msg\<close> is the exception, with
  \<open>msg\<close> what \<^verbatim>\<open>str(e)\<close> gives. \<open>gemini_model\<close> says whether \<^verbatim>\<open>self.model\<close> is a
  model object (\<open>True\<close>) or \<^verbatim>\<open>None\<close>.
\<close>

record gemini_specialist =
  name :: pystr
  specialty :: pystr
  consultations :: int
  successes :: int
  available :: bool
  gemini_model :: bool

record consult_result =
  answer :: pystr
  success :: bool
  ai_name :: pystr

definition truthy :: "pystr option \<Rightarrow> bool" where
  "truthy k = (case k of None \<Rightarrow> False | Some v \<Rightarrow> v \<noteq> [])"

text \<open>
  \<^verbatim>\<open>GeminiSpecialist.__init__\<close>: \<open>GEMINI_AVAILABLE\<close> is the module flag set by the import,
  \<open>configure_ok\<close> says that \<^verbatim>\<open>genai.configure\<close> and \<^verbatim>\<open>GenerativeModel\<close> did not raise.
\<close>

definition GeminiSpecialist_init :: "bool \<Rightarrow> bool \<Rightarrow> pystr option \<Rightarrow> gemini_specialist" where
  "GeminiSpecialist_init GEMINI_AVAILABLE configure_ok api_key =
     \<lparr>name = str ''Gemini Pro'',
      specialty = str ''Scienze (Fisica, Chimica, Biologia), Matematica, Ricerca'',
      consultations = 0,
      successes = 0,
      available = (GEMINI_AVAILABLE \<and> truthy api_key \<and> configure_ok),
      gemini_model = (GEMINI_AVAILABLE \<and> truthy api_key \<and> configure_ok)\<rparr>"

definition consult_prompt :: "gemini_specialist \<Rightarrow> pystr \<Rightarrow> pystr \<Rightarrow> pystr" where
  "consult_prompt g question context =
     str ''CONTESTO UTENTE: '' @ context @ [10, 10] @ str ''DOMANDA: '' @ question @ [10, 10]
     @ str ''Sei un esperto in '' @ specialty g
     @ str ''. Rispondi in modo dettagliato, scientifico ma comprensibile.''"

definition consult ::
  "(pystr \<Rightarrow> pystr + pystr) \<Rightarrow> gemini_specialist \<Rightarrow> pystr \<Rightarrow> pystr
     \<Rightarrow> consult_result \<times> gemini_specialist" where
  "consult generate_content g question context =
     (if \<not> available g \<or> \<not> gemini_model g then
        (\<lparr>answer = [10060] @ str '' Gemini non disponibile'', success = False, ai_name = name g\<rparr>, g)
      else
        let g1 = g\<lparr>consultations := consultations g + 1\<rparr> in
        case generate_content (consult_prompt g1 question context) of
          Inr text \<Rightarrow>
            (\<lparr>answer = text, success = True, ai_name = name g1\<rparr>,
             g1\<lparr>successes := successes g1 + 1\<rparr>)
        | Inl e \<Rightarrow>
            (\<lparr>answer = [10060] @ str '' Errore Gemini: '' @ take 100 e, success = False,
              ai_name = name g1\<rparr>, g1))"

text \<open>
  \<^verbatim>\<open>get_stats\<close> computes the rate from the two counters and returns it as the text
  \<^verbatim>\<open>f"{success_rate:.1f}%"\<close>. The float formatting belongs to the Python runtime and is
  the parameter \<open>render_rate\<close>.
\<close>

definition success_rate :: "gemini_specialist \<Rightarrow> rat" where
  "success_rate g =
     (if consultations g > 0 then of_int (successes g) / of_int (consultations g) * 100 else 0)"

record gemini_stats =
  gs_name :: pystr
  gs_specialty :: pystr
  gs_consultations :: int
  gs_successes :: int
  gs_success_rate :: pystr
  gs_available :: bool

definition GeminiSpecialist_get_stats :: "(rat \<Rightarrow> pystr) \<Rightarrow> gemini_specialist \<Rightarrow> gemini_stats" where
  "GeminiSpecialist_get_stats render_rate g =
     \<lparr>gs_name = name g, gs_specialty = specialty g, gs_consultations = consultations g,
      gs_successes = successes g, gs_success_rate = render_rate (success_rate g),
      gs_available = available g\<rparr>"

section \<open>User profile (\<^verbatim>\<open>_init_user_profile\<close>, \<^verbatim>\<open>analyze_user_message\<close>)\<close>

text \<open>
  Scores are JSON numbers; they are exact rationals here. The source computes with
  floats, which round; a number too large for a float and the values \<^verbatim>\<open>NaN\<close> and
  \<^verbatim>\<open>Infinity\<close>, which \<^verbatim>\<open>json.loads\<close> accepts, are outside the model.
\<close>

record quality_metrics =
  avg_response_score :: rat
  improvement_trend :: "rat list"
  weak_areas :: "pystr list"
  strong_areas :: "pystr list"

record user_profile =
  style :: pystr
  topics_of_interest :: "pystr list"
  conversation_count :: int
  preferred_response_length :: pystr
  language_level :: pystr
  quality_metrics :: quality_metrics

definition init_user_profile :: user_profile where
  "init_user_profile =
     \<lparr>style = str ''neutral'',
      topics_of_interest = [],
      conversation_count = 0,
      preferred_response_length = str ''medium'',
      language_level = str ''medium'',
      quality_metrics =
        \<lparr>avg_response_score = 0, improvement_trend = [], weak_areas = [], strong_areas = []\<rparr>\<rparr>"

text \<open>The slice \<^verbatim>\<open>xs[-n:]\<close> for a positive \<open>n\<close>: the last \<open>n\<close> elements, or all of them.\<close>

definition last_n :: "nat \<Rightarrow> 'a list \<Rightarrow> 'a list" where
  "last_n n xs = drop (length xs - n) xs"

definition interest_science_keywords :: "pystr list" where
  "interest_science_keywords =
     [str ''fisica'', str ''chimica'', str ''biologia'', str ''matematica'', str ''scienza'']"

definition coding_keywords :: "pystr list" where
  "coding_keywords =
     [str ''python'', str ''javascript'', str ''programmazione'', str ''codice'', str ''algoritmo'']"

definition detect_style :: "pystr \<Rightarrow> pystr" where
  "detect_style message_lower =
     (if contains message_lower (str ''gentilmente'') \<or> contains message_lower (str ''per favore'')
        then str ''formal''
      else if contains message_lower (str ''ciao'') \<or> contains message_lower (str ''hey'')
        then str ''casual''
      else if contains message_lower (str ''funzione'') \<or> contains message_lower (str ''codice'')
        then str ''technical''
      else str ''neutral'')"

text \<open>The body of the loop over \<^verbatim>\<open>science_keywords + coding_keywords\<close>.\<close>

definition note_interest :: "pystr \<Rightarrow> pystr list \<Rightarrow> pystr \<Rightarrow> pystr list" where
  "note_interest message_lower topics keyword =
     (if contains message_lower keyword \<and> keyword \<notin> set topics then topics @ [keyword]
      else topics)"

definition analyze_user_message :: "(pystr \<Rightarrow> pystr) \<Rightarrow> pystr \<Rightarrow> user_profile \<Rightarrow> user_profile" where
  "analyze_user_message lower message p =
     (let message_lower = lower message;
          p1 = p\<lparr>style := detect_style message_lower\<rparr>;
          topics = foldl (note_interest message_lower) (topics_of_interest p1)
                     (interest_science_keywords @ coding_keywords);
          p2 = p1\<lparr>topics_of_interest := topics\<rparr>
      in if length (topics_of_interest p2) > 10
         then p2\<lparr>topics_of_interest := last_n 10 (topics_of_interest p2)\<rparr>
         else p2)"

section \<open>Self-critique (\<^verbatim>\<open>_critique_response\<close>, \<^verbatim>\<open>_learn_from_critique\<close>)\<close>

datatype message = SystemMessage pystr | HumanMessage pystr | AIMessage pystr

fun content_of :: "message \<Rightarrow> pystr" where
  "content_of (SystemMessage c) = c"
| "content_of (HumanMessage c) = c"
| "content_of (AIMessage c) = c"

text \<open>
  \<^verbatim>\<open>str.strip()\<close> removes the characters for which \<^verbatim>\<open>str.isspace\<close> holds from both
  ends; \<^verbatim>\<open>s.split(sep)\<close> cuts at the occurrences of a separator from the left, not
  overlapping (the source only splits at the two fence literals, never at an empty one).
\<close>

definition isspace :: "nat \<Rightarrow> bool" where
  "isspace c = (c \<in> set [9, 10, 11, 12, 13, 28, 29, 30, 31, 32, 133, 160, 5760, 8232, 8233,
                          8239, 8287, 12288] \<or> (8192 \<le> c \<and> c \<le> 8202))"

definition strip :: "pystr \<Rightarrow> pystr" where
  "strip s = rev (dropWhile isspace (rev (dropWhile isspace s)))"

fun split_from :: "pystr \<Rightarrow> pystr \<Rightarrow> pystr \<Rightarrow> pystr list" where
  "split_from sep acc [] = [rev acc]"
| "split_from sep acc (c # cs) =
     (if starts_with (c # cs) sep then rev acc # split_from sep [] (drop (length sep - 1) cs)
      else split_from sep (c # acc) cs)"

definition split :: "pystr \<Rightarrow> pystr \<Rightarrow> pystr list" where
  "split s sep = split_from sep [] s"

definition fence_json :: pystr where
  "fence_json = str ''```json''"

definition fence :: pystr where
  "fence = str ''```''"

definition extract_json_str :: "pystr \<Rightarrow> pystr" where
  "extract_json_str raw =
     (let content = strip raw
      in if contains content fence_json
           then strip (split (split content fence_json ! 1) fence ! 0)
         else if contains content fence
           then strip (split (split content fence ! 1) fence ! 0)
         else content)"

definition critique_prompt :: "pystr \<Rightarrow> pystr \<Rightarrow> pystr" where
  "critique_prompt user_message ai_response =
     str ''Valuta questa risposta AI (1-10):'' @ [10, 10]
     @ str ''DOMANDA: '' @ user_message @ [10]
     @ str ''RISPOSTA: '' @ ai_response @ [10, 10]
     @ str ''Criteri:'' @ [10]
     @ str ''- Rilevanza alla domanda'' @ [10]
     @ str ''- Chiarezza espositiva'' @ [10]
     @ str ''- Completezza informativa'' @ [10]
     @ str ''- Accuratezza scientifica'' @ [10]
     @ str ''- Utilit'' @ [224] @ str '' pratica'' @ [10, 10]
     @ str ''Rispondi in formato JSON:''"

definition fallback_critique :: json where
  "fallback_critique =
     JObj [(str ''scores'',
              JObj [(str ''rilevanza'', JNum 7), (str ''chiarezza'', JNum 7),
                    (str ''completezza'', JNum 7), (str ''accuratezza'', JNum 7),
                    (str ''utilita'', JNum 7)]),
           (str ''overall_score'', JNum 7),
           (str ''strengths'', JArr [JStr (str ''Risposta generica'')]),
           (str ''weaknesses'', JArr [JStr (str ''Valutazione non disponibile'')]),
           (str ''improvement_suggestion'', JStr (str ''Continua a migliorare'')),
           (str ''category'', JStr (str ''generale''))]"

text \<open>
  \<open>critic_invoke\<close> is \<^verbatim>\<open>self.critic_model.invoke\<close> followed by reading the text of the
  reply; \<open>json_loads\<close> is \<^verbatim>\<open>json.loads\<close>, \<open>None\<close> when it raises. The whole body is inside
  the \<^verbatim>\<open>try\<close>, so every exception ends in the fallback.
\<close>

definition critique_response ::
  "(message list \<Rightarrow> pystr + pystr) \<Rightarrow> (pystr \<Rightarrow> json option) \<Rightarrow> pystr \<Rightarrow> pystr \<Rightarrow> json" where
  "critique_response critic_invoke json_loads user_message ai_response =
     (case critic_invoke
             [SystemMessage (str ''Sei un critico obiettivo e preciso.''),
              HumanMessage (critique_prompt user_message ai_response)] of
        Inl e \<Rightarrow> fallback_critique
      | Inr raw \<Rightarrow>
          (case json_loads (extract_json_str raw) of
             None \<Rightarrow> fallback_critique
           | Some critique \<Rightarrow> critique))"

datatype py_error = AttributeError | TypeError | ZeroDivisionError | ValueError pystr

text \<open>
  \<^verbatim>\<open>d.get(key, default)\<close>: only a dict has the method. A JSON object is the list of its
  items in order, as \<^verbatim>\<open>json.loads\<close> builds the dict (keys distinct).
\<close>

definition dict_get :: "json \<Rightarrow> pystr \<Rightarrow> json \<Rightarrow> py_error + json" where
  "dict_get d key dflt =
     (case d of
        JObj kvs \<Rightarrow> Inr (case map_of kvs key of Some v \<Rightarrow> v | None \<Rightarrow> dflt)
      | _ \<Rightarrow> Inl AttributeError)"

text \<open>
  The values Python does arithmetic and ordering with against a number: numbers, and
  booleans as 0 and 1. Everything else raises \<^verbatim>\<open>TypeError\<close> there.
\<close>

definition as_number :: "json \<Rightarrow> rat option" where
  "as_number v =
     (case v of JNum r \<Rightarrow> Some r | JBool b \<Rightarrow> Some (if b then 1 else 0) | _ \<Rightarrow> None)"

text \<open>
  The loop over \<^verbatim>\<open>critique.get("scores", {}).items()\<close>. The lists are changed in
  place, so the areas appended before a comparison raises stay appended.
\<close>

fun scan_scores :: "(pystr \<times> json) list \<Rightarrow> quality_metrics \<Rightarrow> py_error option \<times> quality_metrics" where
  "scan_scores [] m = (None, m)"
| "scan_scores ((area, v) # rest) m =
     (case as_number v of
        None \<Rightarrow> (Some TypeError, m)
      | Some x \<Rightarrow>
          scan_scores rest
            (if x \<ge> 8 \<and> area \<notin> set (strong_areas m)
               then m\<lparr>strong_areas := strong_areas m @ [area]\<rparr>
             else if x \<le> 5 \<and> area \<notin> set (weak_areas m)
               then m\<lparr>weak_areas := weak_areas m @ [area]\<rparr>
             else m))"

definition limit_areas :: "quality_metrics \<Rightarrow> quality_metrics" where
  "limit_areas m =
     (let m1 = (if length (strong_areas m) > 5
                then m\<lparr>strong_areas := last_n 5 (strong_areas m)\<rparr> else m)
      in if length (weak_areas m1) > 5
         then m1\<lparr>weak_areas := last_n 5 (weak_areas m1)\<rparr> else m1)"

text \<open>
  Lines 387 to 396: the running average over \<^verbatim>\<open>conversation_count\<close> and the trend,
  for a numeric score and a count that is not 0.
\<close>

definition update_average :: "rat \<Rightarrow> user_profile \<Rightarrow> quality_metrics" where
  "update_average score p =
     (let metrics = quality_metrics p;
          count = conversation_count p;
          current_avg = avg_response_score metrics;
          m1 = metrics\<lparr>avg_response_score :=
                 (current_avg * of_int (count - 1) + score) / of_int count\<rparr>;
          m2 = m1\<lparr>improvement_trend := improvement_trend m1 @ [score]\<rparr>
      in if length (improvement_trend m2) > 20
         then m2\<lparr>improvement_trend := last_n 20 (improvement_trend m2)\<rparr>
         else m2)"

text \<open>
  \<^verbatim>\<open>_learn_from_critique\<close> returns the exception it raises, if any, and the profile as
  the call leaves it: the statements before the raising one have taken effect. Adding a
  value that is no number to the average raises \<^verbatim>\<open>TypeError\<close>, the division by a count
  of 0 \<^verbatim>\<open>ZeroDivisionError\<close>, and \<^verbatim>\<open>.get\<close> or \<^verbatim>\<open>.items\<close> on a value that is no dict
  \<^verbatim>\<open>AttributeError\<close>.
\<close>

definition learn_from_critique :: "json \<Rightarrow> user_profile \<Rightarrow> py_error option \<times> user_profile" where
  "learn_from_critique critique p =
     (case dict_get critique (str ''overall_score'') (JNum 7) of
        Inl e \<Rightarrow> (Some e, p)
      | Inr score_value \<Rightarrow>
          (case as_number score_value of
             None \<Rightarrow> (Some TypeError, p)
           | Some score \<Rightarrow>
               if conversation_count p = 0 then (Some ZeroDivisionError, p)
               else
                 let m3 = update_average score p
                 in (case dict_get critique (str ''scores'') (JObj []) of
                       Inl e \<Rightarrow> (Some e, p\<lparr>quality_metrics := m3\<rparr>)
                     | Inr (JObj items) \<Rightarrow>
                         (case scan_scores items m3 of
                            (Some e, m4) \<Rightarrow> (Some e, p\<lparr>quality_metrics := m4\<rparr>)
                          | (None, m4) \<Rightarrow> (None, p\<lparr>quality_metrics := limit_areas m4\<rparr>))
                     | Inr _ \<Rightarrow> (Some AttributeError, p\<lparr>quality_metrics := m3\<rparr>))))"

section \<open>Aggregate state and memory store (\<^verbatim>\<open>save_memory\<close>, \<^verbatim>\<open>load_memory\<close>)\<close>

record consultation =
  gc_timestamp :: pystr
  gc_question :: pystr
  gc_success :: bool

record learned_patterns =
  successful_responses :: "json list"
  failed_responses :: "json list"
  improvement_strategies :: "json list"
  gemini_consultations :: "consultation list"

record routing_stats =
  total_questions :: int
  routed_to_gemini :: int
  handled_by_coordinator :: int
  gemini_success_rate :: rat

definition init_learned_patterns :: learned_patterns where
  "init_learned_patterns =
     \<lparr>successful_responses = [], failed_responses = [], improvement_strategies = [],
      gemini_consultations = []\<rparr>"

definition init_routing_stats :: routing_stats where
  "init_routing_stats =
     \<lparr>total_questions = 0, routed_to_gemini = 0, handled_by_coordinator = 0,
      gemini_success_rate = 0\<rparr>"

text \<open>
  The instance. \<open>groq_key\<close> is the credential the two \<^verbatim>\<open>ChatGroq\<close> clients
  (\<^verbatim>\<open>self.model\<close>, \<^verbatim>\<open>self.critic_model\<close>) were built with; \<open>chat_history\<close> is the message
  list of the \<^verbatim>\<open>InMemoryChatMessageHistory\<close>.
\<close>

record mavkus =
  user_id :: pystr
  save_file :: pystr
  groq_key :: pystr
  gemini :: gemini_specialist
  chat_history :: "message list"
  user_profile :: user_profile
  learned_patterns :: learned_patterns
  routing_stats :: routing_stats

text \<open>
  The JSON document of a user. \<^verbatim>\<open>json.dump\<close> followed by \<^verbatim>\<open>json.load\<close> gives back the
  dicts, lists, strings and numbers that were written, so the document is kept as the
  data it holds; a key that \<^verbatim>\<open>load_memory\<close> reads with a default is optional. A file
  that does not parse is \<open>Corrupt\<close>.
\<close>

record saved_message =
  role :: pystr
  content :: pystr
  timestamp :: pystr

record saved_data =
  sd_user_id :: pystr
  sd_user_profile :: "user_profile option"
  sd_learned_patterns :: "learned_patterns option"
  sd_routing_stats :: "routing_stats option"
  sd_gemini_stats :: gemini_stats
  sd_chat_history :: "saved_message list option"
  sd_last_saved :: pystr

datatype file_content = Corrupt | Json saved_data

type_synonym files = "pystr \<rightharpoonup> file_content"

text \<open>
  What \<^verbatim>\<open>open(..., 'w')\<close> and \<^verbatim>\<open>json.dump\<close> do: the file is written, or the open
  fails and the file stays as it was, or the dump fails on the truncated file.
\<close>

datatype write_outcome = Written | OpenFailed | DumpFailed

text \<open>
  The surroundings of a call: the functions of the Python runtime the engine uses
  (\<^verbatim>\<open>str.lower\<close>, \<^verbatim>\<open>json.loads\<close>, the f-string of \<^verbatim>\<open>_get_system_prompt\<close>, the
  float formatting of a rate, the clock)
  and the outcomes of the external calls (the three models, the file write, the
  environment variable and the client constructors).
\<close>

record env =
  str_lower :: "pystr \<Rightarrow> pystr"
  json_loads :: "pystr \<Rightarrow> json option"
  render_system_prompt :: "user_profile \<Rightarrow> pystr \<Rightarrow> routing_stats \<Rightarrow> pystr"
  format_rate :: "rat \<Rightarrow> pystr"
  datetime_now :: pystr
  generate_content :: "pystr \<Rightarrow> pystr + pystr"
  model_invoke :: "message list \<Rightarrow> pystr + pystr"
  critic_invoke :: "message list \<Rightarrow> pystr + pystr"
  file_write :: write_outcome
  makedirs_error :: "py_error option"
  getenv_GROQ_API_KEY :: "pystr option"
  ChatGroq_error :: "py_error option"
  GEMINI_AVAILABLE :: bool
  genai_configure_ok :: bool

fun is_human :: "message \<Rightarrow> bool" where
  "is_human (HumanMessage c) = True"
| "is_human m = False"

definition save_message :: "env \<Rightarrow> message \<Rightarrow> saved_message" where
  "save_message e msg =
     \<lparr>role = (if is_human msg then str ''human'' else str ''ai''),
      content = content_of msg,
      timestamp = datetime_now e\<rparr>"

definition save_memory :: "env \<Rightarrow> mavkus \<Rightarrow> files \<Rightarrow> files" where
  "save_memory e s fs =
     (let data =
            \<lparr>sd_user_id = user_id s,
             sd_user_profile = Some (user_profile s),
             sd_learned_patterns = Some (learned_patterns s),
             sd_routing_stats = Some (routing_stats s),
             sd_gemini_stats = GeminiSpecialist_get_stats (format_rate e) (gemini s),
             sd_chat_history = Some (map (save_message e) (last_n 50 (chat_history s))),
             sd_last_saved = datetime_now e\<rparr>
      in case file_write e of
           Written \<Rightarrow> fs(save_file s \<mapsto> Json data)
         | OpenFailed \<Rightarrow> fs
         | DumpFailed \<Rightarrow> fs(save_file s \<mapsto> Corrupt))"

definition load_message :: "saved_message \<Rightarrow> message" where
  "load_message msg_data =
     (if role msg_data = str ''human'' then HumanMessage (content msg_data)
      else AIMessage (content msg_data))"

definition load_memory :: "mavkus \<Rightarrow> files \<Rightarrow> mavkus" where
  "load_memory s fs =
     (case fs (save_file s) of
        None \<Rightarrow> s
      | Some Corrupt \<Rightarrow> s
      | Some (Json data) \<Rightarrow>
          s\<lparr>user_profile :=
               (case sd_user_profile data of Some p \<Rightarrow> p | None \<Rightarrow> user_profile s),
            learned_patterns :=
               (case sd_learned_patterns data of Some l \<Rightarrow> l | None \<Rightarrow> learned_patterns s),
            routing_stats :=
               (case sd_routing_stats data of Some r \<Rightarrow> r | None \<Rightarrow> routing_stats s),
            chat_history :=
               map load_message (case sd_chat_history data of Some h \<Rightarrow> h | None \<Rightarrow> [])\<rparr>)"

definition clear_memory :: "mavkus \<Rightarrow> files \<Rightarrow> mavkus \<times> files" where
  "clear_memory s fs =
     (s\<lparr>chat_history := [], user_profile := init_user_profile,
        learned_patterns := init_learned_patterns, routing_stats := init_routing_stats\<rparr>,
      fs(save_file s := None))"

text \<open>
  \<^verbatim>\<open>MavkusAI.__init__\<close>: the directory, the Groq credential (argument, else the
  environment), the two clients, the specialist, the empty memory, then \<^verbatim>\<open>load_memory\<close>.
\<close>

definition MavkusAI_init ::
  "env \<Rightarrow> files \<Rightarrow> pystr \<Rightarrow> pystr option \<Rightarrow> pystr option \<Rightarrow> py_error + mavkus" where
  "MavkusAI_init e fs uid groq_api_key gemini_api_key =
     (case makedirs_error e of
        Some err \<Rightarrow> Inl err
      | None \<Rightarrow>
          (case (if truthy groq_api_key then groq_api_key else getenv_GROQ_API_KEY e) of
             None \<Rightarrow> Inl (ValueError (str ''GROQ_API_KEY mancante''))
           | Some k \<Rightarrow>
               if k = [] then Inl (ValueError (str ''GROQ_API_KEY mancante''))
               else
                 (case ChatGroq_error e of
                    Some err \<Rightarrow> Inl err
                  | None \<Rightarrow>
                      Inr (load_memory
                             \<lparr>user_id = uid,
                              save_file = str ''user_memories/mavkus_memory_'' @ uid @ str ''.json'',
                              groq_key = k,
                              gemini = GeminiSpecialist_init (GEMINI_AVAILABLE e)
                                         (genai_configure_ok e) gemini_api_key,
                              chat_history = [],
                              user_profile = init_user_profile,
                              learned_patterns = init_learned_patterns,
                              routing_stats = init_routing_stats\<rparr> fs))))"

section \<open>Conversation orchestrator (\<^verbatim>\<open>MavkusAI.chat\<close>)\<close>

record metadata =
  md_routed_to_gemini :: bool
  md_gemini_used :: bool
  md_gemini_response :: "consult_result option"
  md_critique :: json

datatype chat_outcome = Returned pystr metadata | Raised py_error

definition get_system_prompt :: "env \<Rightarrow> mavkus \<Rightarrow> pystr" where
  "get_system_prompt e s =
     render_system_prompt e (user_profile s) (specialty (gemini s)) (routing_stats s)"

text \<open>Lines 267 to 273: the profile, the two counters, the user message in the history.\<close>

definition chat_begin :: "env \<Rightarrow> mavkus \<Rightarrow> pystr \<Rightarrow> mavkus" where
  "chat_begin e s user_message =
     (let p = analyze_user_message (str_lower e) user_message (user_profile s);
          p' = p\<lparr>conversation_count := conversation_count p + 1\<rparr>;
          rs = routing_stats s
      in s\<lparr>user_profile := p',
           routing_stats := rs\<lparr>total_questions := total_questions rs + 1\<rparr>,
           chat_history := chat_history s @ [HumanMessage user_message]\<rparr>)"

text \<open>Lines 275 to 294: the routing decision and the consultation.\<close>

definition chat_route :: "env \<Rightarrow> mavkus \<Rightarrow> pystr \<Rightarrow> bool \<Rightarrow> consult_result option \<times> mavkus" where
  "chat_route e s user_message route_to_gemini =
     (if route_to_gemini \<and> available (gemini s) then
        let rs = routing_stats s;
            s1 = s\<lparr>routing_stats := rs\<lparr>routed_to_gemini := routed_to_gemini rs + 1\<rparr>\<rparr>;
            context = str ''Stile: '' @ style (user_profile s1);
            (gemini_response, g) = consult (generate_content e) (gemini s1) user_message context;
            s2 = s1\<lparr>gemini := g\<rparr>
        in if success gemini_response then
             let lp = learned_patterns s2
             in (Some gemini_response,
                 s2\<lparr>learned_patterns := lp\<lparr>gemini_consultations := gemini_consultations lp @
                      [\<lparr>gc_timestamp = datetime_now e, gc_question = take 100 user_message,
                        gc_success = True\<rparr>]\<rparr>\<rparr>)
           else (Some gemini_response, s2)
      else
        let rs = routing_stats s
        in (None, s\<lparr>routing_stats := rs\<lparr>handled_by_coordinator := handled_by_coordinator rs + 1\<rparr>\<rparr>))"

text \<open>Lines 296 to 306: what is sent to the generalist.\<close>

definition consulenza :: "consult_result option \<Rightarrow> message list" where
  "consulenza gemini_response =
     (case gemini_response of
        None \<Rightarrow> []
      | Some r \<Rightarrow>
          if success r then
            [SystemMessage (str ''CONSULENZA SCIENTIFICA da Gemini:'' @ [10, 10] @ answer r @ [10, 10]
               @ str ''Usa queste informazioni per rispondere all'' @ [39] @ str ''utente.'')]
          else [])"

definition prepare_messages :: "env \<Rightarrow> mavkus \<Rightarrow> consult_result option \<Rightarrow> message list" where
  "prepare_messages e s gemini_response =
     [SystemMessage (get_system_prompt e s)] @ consulenza gemini_response
     @ last_n 10 (chat_history s)"

text \<open>Lines 308 to 315: the generation, or the visible error text.\<close>

definition generate :: "env \<Rightarrow> message list \<Rightarrow> pystr" where
  "generate e messages =
     (case model_invoke e messages of
        Inr text \<Rightarrow> text
      | Inl err \<Rightarrow> [10060] @ str '' Errore generazione risposta: '' @ err)"

text \<open>Lines 323 to 335: the periodic save and the return value.\<close>

definition chat_finish ::
  "env \<Rightarrow> mavkus \<Rightarrow> files \<Rightarrow> bool \<Rightarrow> consult_result option \<Rightarrow> pystr \<Rightarrow> json
     \<Rightarrow> chat_outcome \<times> mavkus \<times> files" where
  "chat_finish e s fs route_to_gemini gemini_response ai_response critique =
     (let fs' = (if conversation_count (user_profile s) mod 5 = 0 then save_memory e s fs else fs);
          md = \<lparr>md_routed_to_gemini = route_to_gemini,
                md_gemini_used = (case gemini_response of Some r \<Rightarrow> success r | None \<Rightarrow> False),
                md_gemini_response = gemini_response,
                md_critique = critique\<rparr>
      in (Returned ai_response md, s, fs'))"

text \<open>
  The turn. The instance is changed in place, so when \<^verbatim>\<open>_learn_from_critique\<close> raises
  (nothing catches it inside \<^verbatim>\<open>chat\<close>) the instance keeps what the turn did so far.
\<close>

definition chat ::
  "env \<Rightarrow> mavkus \<Rightarrow> files \<Rightarrow> pystr \<Rightarrow> bool \<Rightarrow> chat_outcome \<times> mavkus \<times> files" where
  "chat e s fs user_message enable_critique =
     (let s1 = chat_begin e s user_message;
          route_to_gemini = should_route_to_gemini (str_lower e) user_message;
          (gemini_response, s2) = chat_route e s1 user_message route_to_gemini;
          messages = prepare_messages e s2 gemini_response;
          ai_response = generate e messages;
          s3 = s2\<lparr>chat_history := chat_history s2 @ [AIMessage ai_response]\<rparr>
      in if enable_critique then
           let critique = critique_response (critic_invoke e) (json_loads e) user_message ai_response;
               (err, p) = learn_from_critique critique (user_profile s3);
               s4 = s3\<lparr>user_profile := p\<rparr>
           in (case err of
                 Some x \<Rightarrow> (Raised x, s4, fs)
               | None \<Rightarrow> chat_finish e s4 fs route_to_gemini gemini_response ai_response critique)
         else chat_finish e s3 fs route_to_gemini gemini_response ai_response (JObj []))"

text \<open>
  Two values of a turn for stating its properties: the result of the routing step, and
  the text that \<^verbatim>\<open>chat\<close> binds to \<^verbatim>\<open>ai_response\<close>.
\<close>

definition chat_routed :: "env \<Rightarrow> mavkus \<Rightarrow> pystr \<Rightarrow> consult_result option \<times> mavkus" where
  "chat_routed e s user_message =
     chat_route e (chat_begin e s user_message) user_message
       (should_route_to_gemini (str_lower e) user_message)"

definition chat_reply :: "env \<Rightarrow> mavkus \<Rightarrow> pystr \<Rightarrow> pystr" where
  "chat_reply e s user_message =
     generate e (prepare_messages e (snd (chat_routed e s user_message))
                   (fst (chat_routed e s user_message)))"

section \<open>Serving layer (\<^verbatim>\<open>server.py\<close>, \<^verbatim>\<open>firebase_service.py\<close>)\<close>

text \<open>
  A user document of the store with its encrypted credentials. The cipher and the
  reachability of the store are parameters: \<open>decrypt\<close> is \<open>None\<close> when the token is
  rejected, \<open>firestore_up\<close> is false when a call to the store raises.
\<close>

record user_doc =
  enc_groq :: "pystr option"
  enc_gemini :: "pystr option"
  api_keys_configured :: bool

record backend =
  encrypt :: "pystr \<Rightarrow> pystr"
  decrypt :: "pystr \<Rightarrow> pystr option"
  firestore_up :: bool

record api_keys =
  groq_api_key :: "pystr option"
  gemini_api_key :: "pystr option"

text \<open>
  \<^verbatim>\<open>FirebaseService.save_api_keys\<close>: the present keys are encrypted and the document is
  updated; an update of a missing document raises, and every exception gives \<open>False\<close>.
\<close>

definition firebase_save_api_keys ::
  "backend \<Rightarrow> (pystr \<rightharpoonup> user_doc) \<Rightarrow> pystr \<Rightarrow> api_keys \<Rightarrow> bool \<times> (pystr \<rightharpoonup> user_doc)" where
  "firebase_save_api_keys b users uid keys =
     (let g = (if truthy (groq_api_key keys) then map_option (encrypt b) (groq_api_key keys) else None);
          m = (if truthy (gemini_api_key keys) then map_option (encrypt b) (gemini_api_key keys) else None)
      in if firestore_up b \<and> users uid \<noteq> None then
           (True, users(uid \<mapsto> \<lparr>enc_groq = g, enc_gemini = m,
                                 api_keys_configured = (g \<noteq> None \<or> m \<noteq> None)\<rparr>))
         else (False, users))"

text \<open>
  \<^verbatim>\<open>EncryptionService.decrypt\<close> gives the empty string for an empty value and the cipher's
  answer otherwise.
\<close>

definition service_decrypt :: "backend \<Rightarrow> pystr \<Rightarrow> pystr option" where
  "service_decrypt b v = (if v = [] then Some [] else decrypt b v)"

definition firebase_get_api_keys :: "backend \<Rightarrow> (pystr \<rightharpoonup> user_doc) \<Rightarrow> pystr \<Rightarrow> api_keys" where
  "firebase_get_api_keys b users uid =
     (let nothing = \<lparr>groq_api_key = None, gemini_api_key = None\<rparr>
      in if \<not> firestore_up b then nothing
         else case users uid of
           None \<Rightarrow> nothing
         | Some doc \<Rightarrow>
             (case enc_groq doc of
                None \<Rightarrow>
                  (case enc_gemini doc of
                     None \<Rightarrow> nothing
                   | Some m \<Rightarrow>
                       (case service_decrypt b m of
                          None \<Rightarrow> nothing
                        | Some m' \<Rightarrow> \<lparr>groq_api_key = None, gemini_api_key = Some m'\<rparr>))
              | Some g \<Rightarrow>
                  (case service_decrypt b g of
                     None \<Rightarrow> nothing
                   | Some g' \<Rightarrow>
                       (case enc_gemini doc of
                          None \<Rightarrow> \<lparr>groq_api_key = Some g', gemini_api_key = None\<rparr>
                        | Some m \<Rightarrow>
                            (case service_decrypt b m of
                               None \<Rightarrow> nothing
                             | Some m' \<Rightarrow> \<lparr>groq_api_key = Some g', gemini_api_key = Some m'\<rparr>)))))"

text \<open>
  The process: the store, the files of the memory store, and the cache that
  \<^verbatim>\<open>@lru_cache(maxsize=100)\<close> keeps for \<^verbatim>\<open>_create_ai_instance\<close>, most recently used
  first.
\<close>

record server =
  users :: "pystr \<rightharpoonup> user_doc"
  disk :: files
  cache :: "(pystr \<times> mavkus) list"

text \<open>The answer of an endpoint: a body, or an \<^verbatim>\<open>HTTPException\<close> with its status code.\<close>

datatype 'a http = Ok 'a | HTTPException nat

text \<open>
  \<^verbatim>\<open>_create_ai_instance\<close>: a hit returns the memoized instance; a miss reads the
  credentials and constructs; a construction that raises is answered with status 500
  and is not memoized.
\<close>

definition create_ai_instance ::
  "env \<Rightarrow> backend \<Rightarrow> server \<Rightarrow> pystr \<Rightarrow> mavkus http \<times> server" where
  "create_ai_instance e b srv uid =
     (case map_of (cache srv) uid of
        Some ai \<Rightarrow> (Ok ai, srv\<lparr>cache := (uid, ai) # filter (\<lambda>entry. fst entry \<noteq> uid) (cache srv)\<rparr>)
      | None \<Rightarrow>
          let keys = firebase_get_api_keys b (users srv) uid
          in case MavkusAI_init e (disk srv) uid (groq_api_key keys) (gemini_api_key keys) of
               Inl err \<Rightarrow> (HTTPException 500, srv)
             | Inr ai \<Rightarrow> (Ok ai, srv\<lparr>cache := take 100 ((uid, ai) # cache srv)\<rparr>))"

text \<open>
  The two module-level functions of the dependency section.
  \<^verbatim>\<open>_create_ai_instance\<close> is wrapped by \<^verbatim>\<open>lru_cache\<close> and so has \<^verbatim>\<open>cache_clear\<close>;
  \<^verbatim>\<open>get_ai_instance\<close> is a plain \<^verbatim>\<open>def\<close>, and reading \<^verbatim>\<open>cache_clear\<close> from it raises
  \<^verbatim>\<open>AttributeError\<close>.
\<close>

datatype server_function = F_create_ai_instance | F_get_ai_instance

fun cache_clear :: "server_function \<Rightarrow> server \<Rightarrow> py_error + server" where
  "cache_clear F_create_ai_instance srv = Inr (srv\<lparr>cache := []\<rparr>)"
| "cache_clear F_get_ai_instance srv = Inl AttributeError"

record SaveAPIKeysRequest =
  req_user_id :: pystr
  req_groq_api_key :: "pystr option"
  req_gemini_api_key :: "pystr option"

text \<open>
  \<^verbatim>\<open>save_api_keys\<close> (the endpoint): the body is inside one \<^verbatim>\<open>try\<close> whose handler
  answers every exception with status 500. The answer of a success lists the saved keys.
\<close>

definition save_api_keys ::
  "backend \<Rightarrow> server \<Rightarrow> SaveAPIKeysRequest \<Rightarrow> pystr list http \<times> server" where
  "save_api_keys b srv request =
     (let keys = \<lparr>groq_api_key = (if truthy (req_groq_api_key request)
                                   then req_groq_api_key request else None),
                  gemini_api_key = (if truthy (req_gemini_api_key request)
                                     then req_gemini_api_key request else None)\<rparr>;
          (ok, users') = firebase_save_api_keys b (users srv) (req_user_id request) keys;
          srv1 = srv\<lparr>users := users'\<rparr>
      in if ok then
           (case cache_clear F_get_ai_instance srv1 of
              Inl err \<Rightarrow> (HTTPException 500, srv1)
            | Inr srv2 \<Rightarrow>
                (Ok ((if groq_api_key keys \<noteq> None then [str ''groq_api_key''] else [])
                     @ (if gemini_api_key keys \<noteq> None then [str ''gemini_api_key''] else [])),
                 srv2))
         else (HTTPException 500, srv1))"

section \<open>Concrete surroundings for running the model\<close>

text \<open>
  An environment in which the generalist and the critic answer with fixed replies, the
  specialist answers, files are written, and \<^verbatim>\<open>json.loads\<close> is given by a table of the
  texts it parses (every other text is rejected).
\<close>

text \<open>
  The rendering of a rate in the sample runs: the decimal digits with one decimal place
  (a half rounded up) and a percent sign, for a rate that is not negative. The rates 0
  and 100 come out as \<^verbatim>\<open>0.0%\<close> and \<^verbatim>\<open>100.0%\<close>.
\<close>

fun decimal_digits :: "nat \<Rightarrow> pystr" where
  "decimal_digits n =
     (if n < 10 then [48 + n] else decimal_digits (n div 10) @ [48 + n mod 10])"

definition one_decimal_percent :: "rat \<Rightarrow> pystr" where
  "one_decimal_percent r =
     (let tenths = nat \<lfloor>r * 10 + 1 / 2\<rfloor>
      in decimal_digits (tenths div 10) @ [46] @ [48 + tenths mod 10] @ [37])"

definition sample_env :: "(pystr + pystr) \<Rightarrow> (pystr + pystr) \<Rightarrow> (pystr \<times> json) list \<Rightarrow> env" where
  "sample_env model_reply critic_reply parses =
     \<lparr>str_lower = ascii_lower,
      json_loads = map_of parses,
      render_system_prompt = (\<lambda>p sp rs. str ''Sei MAVKUS''),
      format_rate = one_decimal_percent,
      datetime_now = str ''2024-01-01T00:00:00'',
      generate_content = (\<lambda>prompt. Inr (str ''consulenza'')),
      model_invoke = (\<lambda>messages. model_reply),
      critic_invoke = (\<lambda>messages. critic_reply),
      file_write = Written,
      makedirs_error = None,
      getenv_GROQ_API_KEY = None,
      ChatGroq_error = None,
      GEMINI_AVAILABLE = True,
      genai_configure_ok = True\<rparr>"

definition sample_backend :: backend where
  "sample_backend = \<lparr>encrypt = (\<lambda>v. 35 # v), decrypt = (\<lambda>v. Some (tl v)), firestore_up = True\<rparr>"

text \<open>The instance of a user on first contact: constructed with no file on the disk.\<close>

definition fresh :: "pystr option \<Rightarrow> mavkus" where
  "fresh gemini_key =
     \<lparr>user_id = str ''u1'',
      save_file = str ''user_memories/mavkus_memory_u1.json'',
      groq_key = str ''gsk'',
      gemini = GeminiSpecialist_init True True gemini_key,
      chat_history = [],
      user_profile = init_user_profile,
      learned_patterns = init_learned_patterns,
      routing_stats = init_routing_stats\<rparr>"

text \<open>
  Replies of the critic, as texts and as the values \<^verbatim>\<open>json.loads\<close> reads from them:
  a score alone, \<^verbatim>\<open>{"overall_score": 8}\<close>; and seven criteria of which the last is
  not a number,
  \<^verbatim>\<open>{"scores": {"rilevanza": 9, "chiarezza": 9, "completezza": 9, "accuratezza": 9,
  "utilita": 9, "sintesi": 9, "note": "ottima"}}\<close>.
\<close>

definition quoted :: "pystr \<Rightarrow> pystr" where
  "quoted s = [34] @ s @ [34]"

definition score_reply :: "pystr \<Rightarrow> pystr" where
  "score_reply digits = str ''{'' @ quoted (str ''overall_score'') @ str '': '' @ digits @ str ''}''"

definition scoring_env :: "pystr \<Rightarrow> rat \<Rightarrow> env" where
  "scoring_env digits x =
     sample_env (Inr (str ''Ciao!'')) (Inr (score_reply digits))
       [(score_reply digits, JObj [(str ''overall_score'', JNum x)])]"

definition seven_criteria_reply :: pystr where
  "seven_criteria_reply =
     str ''{'' @ quoted (str ''scores'') @ str '': {''
     @ quoted (str ''rilevanza'') @ str '': 9, '' @ quoted (str ''chiarezza'') @ str '': 9, ''
     @ quoted (str ''completezza'') @ str '': 9, '' @ quoted (str ''accuratezza'') @ str '': 9, ''
     @ quoted (str ''utilita'') @ str '': 9, '' @ quoted (str ''sintesi'') @ str '': 9, ''
     @ quoted (str ''note'') @ str '': '' @ quoted (str ''ottima'') @ str ''}}''"

definition seven_criteria :: json where
  "seven_criteria =
     JObj [(str ''scores'',
        JObj [(str ''rilevanza'', JNum 9), (str ''chiarezza'', JNum 9),
              (str ''completezza'', JNum 9), (str ''accuratezza'', JNum 9),
              (str ''utilita'', JNum 9), (str ''sintesi'', JNum 9),
              (str ''note'', JStr (str ''ottima''))])]"

definition seven_criteria_env :: env where
  "seven_criteria_env =
     sample_env (Inr (str ''Ciao!'')) (Inr seven_criteria_reply)
       [(seven_criteria_reply, seven_criteria)]"

text \<open>The call of the critic raises.\<close>

definition silent_critic_env :: env where
  "silent_critic_env = sample_env (Inr (str ''Ciao!'')) (Inl (str ''timeout'')) []"

text \<open>The critic answers with a JSON array, \<^verbatim>\<open>[]\<close>.\<close>

definition array_env :: env where
  "array_env = sample_env (Inr (str ''Ciao!'')) (Inr (str ''[]'')) [(str ''[]'', JArr [])]"

text \<open>The generalist raises.\<close>

definition failing_model_env :: env where
  "failing_model_env = sample_env (Inl (str ''rate limit'')) (Inr (str ''[]'')) []"

text \<open>
  The instance and the disk after a turn, whatever the turn's outcome: the caller of
  \<^verbatim>\<open>chat\<close> keeps the same instance for the next turn.
\<close>

definition turn :: "env \<Rightarrow> pystr \<Rightarrow> bool \<Rightarrow> mavkus \<times> files \<Rightarrow> mavkus \<times> files" where
  "turn e user_message enable_critique w = snd (chat e (fst w) (snd w) user_message enable_critique)"

text \<open>
  A store with one user whose Groq credential is \<open>old\<close>, nothing memoized yet, and the
  request that replaces the credential by \<open>new\<close>.
\<close>

definition sample_server :: server where
  "sample_server =
     \<lparr>users = [str ''u1'' \<mapsto> \<lparr>enc_groq = Some (encrypt sample_backend (str ''old'')),
                               enc_gemini = None, api_keys_configured = True\<rparr>],
      disk = Map.empty,
      cache = []\<rparr>"

definition new_key_request :: SaveAPIKeysRequest where
  "new_key_request =
     \<lparr>req_user_id = str ''u1'', req_groq_api_key = Some (str ''new''), req_gemini_api_key = None\<rparr>"

section \<open>Routing: the decision rule\<close>

lemma str_simps: "str [] = []" "str (c # cs) = of_char c # str cs"
  by (simp_all add: str_def)

lemma distinct_science_keywords: "distinct science_keywords"
  by (simp add: science_keywords_def str_simps)

lemma science_count_card:
  "science_count ql = card {kw \<in> set science_keywords. contains ql kw}"
proof -
  have "distinct (filter (\<lambda>kw. contains ql kw) science_keywords)"
    using distinct_science_keywords by simp
  then have "card (set (filter (\<lambda>kw. contains ql kw) science_keywords)) = science_count ql"
    unfolding science_count_def by (rule distinct_card)
  then show ?thesis by simp
qed

text \<open>
  C1. For every message, the routing predicate is true exactly when at least two distinct
  keywords of the science set occur in the lowercased message or one of the strong
  signals (fisica, chimica, biologia) occurs; a message in which exactly one keyword
  occurs, and that one is no strong signal, is not routed.
\<close>

theorem should_route_to_gemini_rule:
  "(should_route_to_gemini lower q =
     (2 \<le> card {kw \<in> set science_keywords. contains (lower q) kw}
      \<or> (\<exists>kw \<in> set strong_signals. contains (lower q) kw)))
   \<and> ({kw \<in> set science_keywords. contains (lower q) kw} = {k} \<and> k \<notin> set strong_signals
        \<longrightarrow> \<not> should_route_to_gemini lower q)"
proof (intro conjI impI)
  show rule: "should_route_to_gemini lower q =
     (2 \<le> card {kw \<in> set science_keywords. contains (lower q) kw}
      \<or> (\<exists>kw \<in> set strong_signals. contains (lower q) kw))"
    by (simp add: should_route_to_gemini_def Let_def science_count_card list_ex_iff)
  assume "{kw \<in> set science_keywords. contains (lower q) kw} = {k} \<and> k \<notin> set strong_signals"
  then have one: "{kw \<in> set science_keywords. contains (lower q) kw} = {k}"
    and weak: "k \<notin> set strong_signals" by simp_all
  have sub: "set strong_signals \<subseteq> set science_keywords"
    by (simp add: strong_signals_def science_keywords_def str_simps)
  have "\<not> (\<exists>kw \<in> set strong_signals. contains (lower q) kw)"
  proof
    assume "\<exists>kw \<in> set strong_signals. contains (lower q) kw"
    then obtain kw where kw: "kw \<in> set strong_signals" "contains (lower q) kw" by blast
    with sub have "kw \<in> {kw \<in> set science_keywords. contains (lower q) kw}" by blast
    with one have "kw = k" by simp
    with kw weak show False by simp
  qed
  moreover have "card {kw \<in> set science_keywords. contains (lower q) kw} = 1"
    using one by simp
  ultimately show "\<not> should_route_to_gemini lower q"
    using rule by simp
qed

theorem should_route_to_gemini_rule_witness:
  "{kw \<in> set science_keywords. contains (ascii_lower (str ''Un Atomo'')) kw} = {str ''atomo''}
   \<and> str ''atomo'' \<notin> set strong_signals
   \<and> \<not> should_route_to_gemini ascii_lower (str ''Un Atomo'')"
proof -
  have f: "filter (contains (ascii_lower (str ''Un Atomo''))) science_keywords = [str ''atomo'']"
    by (simp add: science_keywords_def ascii_lower_def str_simps)
  have "{kw \<in> set science_keywords. contains (ascii_lower (str ''Un Atomo'')) kw}
        = set (filter (contains (ascii_lower (str ''Un Atomo''))) science_keywords)"
    by simp
  also have "\<dots> = {str ''atomo''}"
    by (simp only: f) (simp add: str_simps)
  finally have one:
    "{kw \<in> set science_keywords. contains (ascii_lower (str ''Un Atomo'')) kw} = {str ''atomo''}" .
  have weak: "str ''atomo'' \<notin> set strong_signals"
    by (simp add: strong_signals_def str_simps)
  from should_route_to_gemini_rule [of ascii_lower "str ''Un Atomo''" "str ''atomo''"] one weak
  show ?thesis by blast
qed

section \<open>Specialist adapter: the two counters\<close>

text \<open>
  C5 (as the code has it). A call of \<open>consult\<close> on an unavailable specialist returns
  \<open>success = False\<close> and changes neither counter; a call on an available specialist adds
  one to the consultation counter, also when the generation fails; the success counter
  grows by one exactly on the calls that return \<open>success = True\<close>.
\<close>

theorem consult_counters:
  "consult gen g q ctx = (r, g') \<Longrightarrow>
     (\<not> available g \<or> \<not> gemini_model g \<longrightarrow> \<not> success r \<and> g' = g)
   \<and> (available g \<and> gemini_model g \<longrightarrow> consultations g' = consultations g + 1)
   \<and> successes g' = successes g + (if success r then 1 else 0)"
  by (auto simp: consult_def Let_def split: sum.splits if_splits)

theorem consult_counters_witness:
  "available (GeminiSpecialist_init True True (Some (str ''key'')))
   \<and> gemini_model (GeminiSpecialist_init True True (Some (str ''key'')))
   \<and> \<not> success (fst (consult (\<lambda>p. Inl (str ''quota''))
          (GeminiSpecialist_init True True (Some (str ''key''))) (str ''atomo'') []))
   \<and> consultations (snd (consult (\<lambda>p. Inl (str ''quota''))
          (GeminiSpecialist_init True True (Some (str ''key''))) (str ''atomo'') [])) = 1
   \<and> successes (snd (consult (\<lambda>p. Inl (str ''quota''))
          (GeminiSpecialist_init True True (Some (str ''key''))) (str ''atomo'') [])) = 0
   \<and> \<not> available (GeminiSpecialist_init True True None)
   \<and> snd (consult (\<lambda>p. Inr (str ''risposta'')) (GeminiSpecialist_init True True None)
          (str ''atomo'') []) = GeminiSpecialist_init True True None"
proof -
  let ?g = "GeminiSpecialist_init True True (Some (str ''key''))"
  let ?u = "GeminiSpecialist_init True True None"
  let ?c1 = "consult (\<lambda>p. Inl (str ''quota'')) ?g (str ''atomo'') []"
  let ?c2 = "consult (\<lambda>p. Inr (str ''risposta'')) ?u (str ''atomo'') []"
  have c1: "?c1 = (fst ?c1, snd ?c1)" and c2: "?c2 = (fst ?c2, snd ?c2)"
    by simp_all
  have a: "available ?g" "gemini_model ?g" "consultations ?g = 0" "successes ?g = 0"
          "\<not> available ?u"
    by (simp_all add: GeminiSpecialist_init_def truthy_def str_simps)
  have r: "\<not> success (fst ?c1)"
    by (simp add: consult_def Let_def GeminiSpecialist_init_def truthy_def str_simps)
  from consult_counters [OF c1] consult_counters [OF c2] a r
  show ?thesis by simp
qed

text \<open>
  The unavailable specialist: a call leaves the consultation counter where it was, so
  the counter does not count every call.
\<close>

theorem consult_unavailable_not_counted:
  "consultations (snd (consult (\<lambda>p. Inr (str ''risposta'')) (GeminiSpecialist_init True True None)
      (str ''atomo'') []))
   \<noteq> consultations (GeminiSpecialist_init True True None) + 1"
  by (simp add: consult_def GeminiSpecialist_init_def truthy_def)


section \<open>Strings: texts without a code fence\<close>

lemma starts_with_set: "starts_with s p \<Longrightarrow> set p \<subseteq> set s"
  by (induction s p rule: starts_with.induct) auto

lemma contains_set: "contains s sub \<Longrightarrow> set sub \<subseteq> set s"
proof (induction s)
  case Nil
  then show ?case by simp
next
  case (Cons a s)
  then show ?case using starts_with_set [of "a # s" sub] by auto
qed

lemma strip_id:
  assumes "s \<noteq> []" "\<not> isspace (hd s)" "\<not> isspace (last s)"
  shows "strip s = s"
proof -
  from assms have front: "dropWhile isspace s = s" by (cases s) auto
  from assms have "rev s \<noteq> []" "\<not> isspace (hd (rev s))" by (simp_all add: hd_rev)
  then have "dropWhile isspace (rev s) = rev s" by (cases "rev s") auto
  with front show ?thesis by (simp add: strip_def)
qed

text \<open>A reply with no backquote and no space at its ends is parsed as it is.\<close>

lemma extract_plain_text:
  assumes "s \<noteq> []" "\<not> isspace (hd s)" "\<not> isspace (last s)" "96 \<notin> set s"
  shows "extract_json_str s = s"
proof -
  have s: "strip s = s" using assms by (simp add: strip_id)
  have "\<not> contains s fence_json" "\<not> contains s fence"
    using assms(4) contains_set [of s fence_json] contains_set [of s fence]
    by (auto simp: fence_json_def fence_def str_simps)
  with s show ?thesis by (simp add: extract_json_str_def Let_def)
qed

lemma extract_seven_criteria: "extract_json_str seven_criteria_reply = seven_criteria_reply"
  by (rule extract_plain_text)
     (simp_all add: seven_criteria_reply_def quoted_def str_simps isspace_def)

lemma extract_score_reply:
  "extract_json_str (score_reply (str ''8'')) = score_reply (str ''8'')"
  "extract_json_str (score_reply (str ''6'')) = score_reply (str ''6'')"
  "extract_json_str (score_reply (str ''10'')) = score_reply (str ''10'')"
  by (rule extract_plain_text, simp_all add: score_reply_def quoted_def str_simps isspace_def)+

lemma extract_array: "extract_json_str (str ''[]'') = str ''[]''"
  by (rule extract_plain_text) (simp_all add: str_simps isspace_def)

lemma sample_critique:
  "critique_response (critic_invoke (sample_env mr (Inr raw) tbl))
      (json_loads (sample_env mr (Inr raw) tbl)) um ar
   = (case map_of tbl (extract_json_str raw) of None \<Rightarrow> fallback_critique | Some c \<Rightarrow> c)"
  by (simp add: critique_response_def sample_env_def)

section \<open>Profile: what the update rules keep\<close>

lemma length_last_n: "length (last_n n xs) \<le> n"
  by (simp add: last_n_def)

lemma last_n_short: "length xs \<le> n \<Longrightarrow> last_n n xs = xs"
  by (simp add: last_n_def)

text \<open>The list of interests holds at most ten keywords after every analysis.\<close>

lemma analyze_topics_bound:
  "length (topics_of_interest (analyze_user_message lower message p)) \<le> 10"
  by (simp add: analyze_user_message_def Let_def length_last_n)

lemma analyze_keeps_metrics:
  "quality_metrics (analyze_user_message lower message p) = quality_metrics p"
  "conversation_count (analyze_user_message lower message p) = conversation_count p"
  by (simp_all add: analyze_user_message_def Let_def)

lemma scan_scores_trend:
  "scan_scores items m = (err, m') \<Longrightarrow>
     improvement_trend m' = improvement_trend m \<and> avg_response_score m' = avg_response_score m"
  by (induction items arbitrary: m) (auto split: option.splits if_splits)

lemma limit_areas_bounds:
  "length (strong_areas (limit_areas m)) \<le> 5"
  "length (weak_areas (limit_areas m)) \<le> 5"
  "improvement_trend (limit_areas m) = improvement_trend m"
  "avg_response_score (limit_areas m) = avg_response_score m"
  by (simp_all add: limit_areas_def Let_def length_last_n)

text \<open>A call of \<^verbatim>\<open>_learn_from_critique\<close> that returns leaves the three lists in bounds.\<close>

lemma update_average_simps:
  "strong_areas (update_average x p) = strong_areas (quality_metrics p)"
  "weak_areas (update_average x p) = weak_areas (quality_metrics p)"
  "avg_response_score (update_average x p)
     = (avg_response_score (quality_metrics p) * of_int (conversation_count p - 1) + x)
       / of_int (conversation_count p)"
  "length (improvement_trend (update_average x p)) \<le> 20"
  by (simp_all add: update_average_def Let_def length_last_n)

lemma learn_bounds:
  assumes "learn_from_critique critique p = (None, p')"
  shows "length (improvement_trend (quality_metrics p')) \<le> 20
       \<and> length (strong_areas (quality_metrics p')) \<le> 5
       \<and> length (weak_areas (quality_metrics p')) \<le> 5"
proof -
  from assms obtain x items m4 where
    m4: "scan_scores items (update_average x p) = (None, m4)"
    and p': "p' = p\<lparr>quality_metrics := limit_areas m4\<rparr>"
    by (auto simp: learn_from_critique_def Let_def
        split: sum.splits option.splits if_splits json.splits prod.splits)
  from scan_scores_trend [OF m4] have "length (improvement_trend m4) \<le> 20"
    by (simp add: update_average_simps)
  with p' show ?thesis by (simp add: limit_areas_bounds)
qed

section \<open>The turn, step by step\<close>

lemma chat_begin_simps:
  "chat_history (chat_begin e s um) = chat_history s @ [HumanMessage um]"
  "user_profile (chat_begin e s um) =
     (analyze_user_message (str_lower e) um (user_profile s))
       \<lparr>conversation_count := conversation_count (user_profile s) + 1\<rparr>"
  "gemini (chat_begin e s um) = gemini s"
  "gemini_success_rate (routing_stats (chat_begin e s um)) = gemini_success_rate (routing_stats s)"
  by (simp_all add: chat_begin_def Let_def analyze_user_message_def)

lemma chat_route_simps:
  "chat_history (snd (chat_route e s um r)) = chat_history s"
  "user_profile (snd (chat_route e s um r)) = user_profile s"
  "gemini_success_rate (routing_stats (snd (chat_route e s um r))) = gemini_success_rate (routing_stats s)"
  by (simp_all add: chat_route_def Let_def case_prod_beta)

lemma chat_routed_simps:
  "chat_history (snd (chat_routed e s um)) = chat_history s @ [HumanMessage um]"
  "user_profile (snd (chat_routed e s um)) =
     (analyze_user_message (str_lower e) um (user_profile s))
       \<lparr>conversation_count := conversation_count (user_profile s) + 1\<rparr>"
  "gemini_success_rate (routing_stats (snd (chat_routed e s um))) = gemini_success_rate (routing_stats s)"
  by (simp_all add: chat_routed_def chat_route_simps chat_begin_simps)

lemma chat_unfold:
  "chat e s fs um crit =
     (let gr = fst (chat_routed e s um);
          s2 = snd (chat_routed e s um);
          r = chat_reply e s um;
          s3 = s2\<lparr>chat_history := chat_history s2 @ [AIMessage r]\<rparr>
      in if crit then
           (let c = critique_response (critic_invoke e) (json_loads e) um r;
                lr = learn_from_critique c (user_profile s3);
                s4 = s3\<lparr>user_profile := snd lr\<rparr>
            in case fst lr of
                 Some x \<Rightarrow> (Raised x, s4, fs)
               | None \<Rightarrow> chat_finish e s4 fs (should_route_to_gemini (str_lower e) um) gr r c)
         else chat_finish e s3 fs (should_route_to_gemini (str_lower e) um) gr r (JObj []))"
  by (simp add: chat_def chat_routed_def chat_reply_def Let_def case_prod_beta)

lemma chat_finish_state: "fst (snd (chat_finish e s fs rt gr r c)) = s"
  by (simp add: chat_finish_def Let_def)

lemma chat_finish_returns: "fst (chat_finish e s fs rt gr r c) =
  Returned r \<lparr>md_routed_to_gemini = rt,
              md_gemini_used = (case gr of Some x \<Rightarrow> success x | None \<Rightarrow> False),
              md_gemini_response = gr, md_critique = c\<rparr>"
  by (simp add: chat_finish_def Let_def)

text \<open>The history, the outcome and the reply of a turn.\<close>

lemma chat_history_after:
  "chat_history (fst (snd (chat e s fs um crit)))
     = chat_history s @ [HumanMessage um, AIMessage (chat_reply e s um)]"
  by (simp add: chat_unfold Let_def chat_finish_state chat_routed_simps split: option.splits)

lemma chat_outcome_reply:
  "(\<exists>md. fst (chat e s fs um crit) = Returned (chat_reply e s um) md)
    \<or> (\<exists>x. fst (chat e s fs um crit) = Raised x)"
  by (simp add: chat_unfold Let_def chat_finish_returns split: option.splits)

lemma chat_reply_messages:
  "chat_reply e s um =
     generate e ([SystemMessage (get_system_prompt e (snd (chat_routed e s um)))]
                 @ consulenza (fst (chat_routed e s um))
                 @ last_n 10 (chat_history s @ [HumanMessage um]))"
  by (simp add: chat_reply_def prepare_messages_def chat_routed_simps)

lemma chat_rate_untouched:
  "gemini_success_rate (routing_stats (fst (snd (chat e s fs um crit))))
     = gemini_success_rate (routing_stats s)"
  by (simp add: chat_unfold Let_def chat_finish_state chat_routed_simps split: option.splits)

text \<open>
  The learning step of a turn runs on the analysed profile with the turn counted, and
  the turn raises exactly when the learning step does.
\<close>

lemma chat_profile_learning:
  "user_profile (fst (snd (chat e s fs um True)))
     = snd (learn_from_critique
              (critique_response (critic_invoke e) (json_loads e) um (chat_reply e s um))
              ((analyze_user_message (str_lower e) um (user_profile s))
                 \<lparr>conversation_count := conversation_count (user_profile s) + 1\<rparr>))"
  by (simp add: chat_unfold Let_def chat_finish_state chat_routed_simps split: option.splits)

lemma chat_outcome_learning:
  "fst (chat e s fs um True) =
     (case fst (learn_from_critique
              (critique_response (critic_invoke e) (json_loads e) um (chat_reply e s um))
              ((analyze_user_message (str_lower e) um (user_profile s))
                 \<lparr>conversation_count := conversation_count (user_profile s) + 1\<rparr>)) of
        Some x \<Rightarrow> Raised x
      | None \<Rightarrow>
          Returned (chat_reply e s um)
            \<lparr>md_routed_to_gemini = should_route_to_gemini (str_lower e) um,
             md_gemini_used = (case fst (chat_routed e s um) of Some x \<Rightarrow> success x | None \<Rightarrow> False),
             md_gemini_response = fst (chat_routed e s um),
             md_critique = critique_response (critic_invoke e) (json_loads e) um
                             (chat_reply e s um)\<rparr>)"
  by (simp add: chat_unfold Let_def chat_finish_returns chat_routed_simps split: option.splits)

lemma chat_profile_no_critique:
  "user_profile (fst (snd (chat e s fs um False)))
     = (analyze_user_message (str_lower e) um (user_profile s))
         \<lparr>conversation_count := conversation_count (user_profile s) + 1\<rparr>"
  by (simp add: chat_unfold Let_def chat_finish_state chat_routed_simps)

text \<open>
  With the critique switched off the turn returns whatever the models and the disk do:
  a failed generation, a failed consultation and a failed write are all absorbed.
\<close>

lemma chat_without_critique_returns:
  "\<exists>md. fst (chat e s fs um False) = Returned (chat_reply e s um) md"
  by (simp add: chat_unfold Let_def chat_finish_returns)

section \<open>Capacities of the profile lists\<close>

lemma seven_criteria_get:
  "dict_get seven_criteria (str ''overall_score'') (JNum 7) = Inr (JNum 7)"
  "dict_get seven_criteria (str ''scores'') (JObj []) =
     Inr (JObj [(str ''rilevanza'', JNum 9), (str ''chiarezza'', JNum 9),
                (str ''completezza'', JNum 9), (str ''accuratezza'', JNum 9),
                (str ''utilita'', JNum 9), (str ''sintesi'', JNum 9),
                (str ''note'', JStr (str ''ottima''))])"
  by (simp_all add: dict_get_def seven_criteria_def str_simps)

lemma scan_seven_criteria:
  assumes "strong_areas m = []"
  shows "fst (scan_scores
          [(str ''rilevanza'', JNum 9), (str ''chiarezza'', JNum 9),
           (str ''completezza'', JNum 9), (str ''accuratezza'', JNum 9),
           (str ''utilita'', JNum 9), (str ''sintesi'', JNum 9),
           (str ''note'', JStr (str ''ottima''))] m) = Some TypeError"
    and "length (strong_areas (snd (scan_scores
          [(str ''rilevanza'', JNum 9), (str ''chiarezza'', JNum 9),
           (str ''completezza'', JNum 9), (str ''accuratezza'', JNum 9),
           (str ''utilita'', JNum 9), (str ''sintesi'', JNum 9),
           (str ''note'', JStr (str ''ottima''))] m))) = 6"
  using assms by (simp_all add: as_number_def str_simps)

lemma learn_seven_criteria:
  assumes "conversation_count p \<noteq> 0" "strong_areas (quality_metrics p) = []"
  shows "fst (learn_from_critique seven_criteria p) = Some TypeError"
    and "length (strong_areas (quality_metrics (snd (learn_from_critique seven_criteria p)))) = 6"
proof -
  let ?items = "[(str ''rilevanza'', JNum 9), (str ''chiarezza'', JNum 9),
           (str ''completezza'', JNum 9), (str ''accuratezza'', JNum 9),
           (str ''utilita'', JNum 9), (str ''sintesi'', JNum 9),
           (str ''note'', JStr (str ''ottima''))]"
  have m: "strong_areas (update_average 7 p) = []"
    using assms by (simp add: update_average_simps)
  obtain m4 where scan: "scan_scores ?items (update_average 7 p) = (Some TypeError, m4)"
    and six: "length (strong_areas m4) = 6"
    using scan_seven_criteria [OF m] by (metis prod.collapse)
  have l: "learn_from_critique seven_criteria p = (Some TypeError, p\<lparr>quality_metrics := m4\<rparr>)"
    using assms(1)
    by (simp add: learn_from_critique_def seven_criteria_get as_number_def Let_def scan
        del: scan_scores.simps)
  show "fst (learn_from_critique seven_criteria p) = Some TypeError"
    by (simp add: l)
  show "length (strong_areas (quality_metrics (snd (learn_from_critique seven_criteria p)))) = 6"
    by (simp add: l six)
qed

text \<open>
  C6. The capacities hold after every analysis and after every learning step that
  returns (\<open>analyze_topics_bound\<close>, \<open>learn_bounds\<close>), but not after every operation: a
  first turn whose critique scores six criteria with 9 and gives a text for a seventh
  appends six areas, raises \<^verbatim>\<open>TypeError\<close> at the seventh and never reaches the
  truncation, so the instance is left with six strong areas.
\<close>

theorem strong_areas_overflow:
  "fst (chat seven_criteria_env (fresh None) Map.empty (str ''ciao'') True) = Raised TypeError
   \<and> length (strong_areas (quality_metrics (user_profile
        (fst (snd (chat seven_criteria_env (fresh None) Map.empty (str ''ciao'') True)))))) = 6"
proof -
  let ?e = seven_criteria_env
  let ?p = "(analyze_user_message (str_lower ?e) (str ''ciao'') (user_profile (fresh None)))
              \<lparr>conversation_count := conversation_count (user_profile (fresh None)) + 1\<rparr>"
  have c: "critique_response (critic_invoke ?e) (json_loads ?e) (str ''ciao'') ar = seven_criteria"
    for ar
    unfolding seven_criteria_env_def sample_critique extract_seven_criteria by simp
  have "user_profile (fresh None) = init_user_profile"
    by (simp add: fresh_def)
  then have p: "conversation_count ?p \<noteq> 0" "strong_areas (quality_metrics ?p) = []"
    by (simp_all add: analyze_keeps_metrics init_user_profile_def)
  have "fst (chat ?e (fresh None) Map.empty (str ''ciao'') True) = Raised TypeError"
    unfolding chat_outcome_learning c learn_seven_criteria(1) [OF p] by simp
  moreover have "length (strong_areas (quality_metrics (user_profile
        (fst (snd (chat ?e (fresh None) Map.empty (str ''ciao'') True)))))) = 6"
    unfolding chat_profile_learning c by (rule learn_seven_criteria(2) [OF p])
  ultimately show ?thesis by (rule conjI)
qed

section \<open>Critique: the neutral fallback\<close>

lemma scan_scores_fallback:
  "scan_scores [(str ''rilevanza'', JNum 7), (str ''chiarezza'', JNum 7),
                (str ''completezza'', JNum 7), (str ''accuratezza'', JNum 7),
                (str ''utilita'', JNum 7)] m = (None, m)"
  by (simp add: as_number_def)

lemma fallback_get:
  "dict_get fallback_critique (str ''overall_score'') d = Inr (JNum 7)"
  "dict_get fallback_critique (str ''scores'') d =
     Inr (JObj [(str ''rilevanza'', JNum 7), (str ''chiarezza'', JNum 7),
                (str ''completezza'', JNum 7), (str ''accuratezza'', JNum 7),
                (str ''utilita'', JNum 7)])"
  by (simp_all add: dict_get_def fallback_critique_def str_simps)

lemma learn_fallback:
  assumes "conversation_count p \<noteq> 0"
  shows "fst (learn_from_critique fallback_critique p) = None"
    and "avg_response_score (quality_metrics (snd (learn_from_critique fallback_critique p)))
         = (avg_response_score (quality_metrics p) * of_int (conversation_count p - 1) + 7)
           / of_int (conversation_count p)"
  using assms
  by (simp_all add: learn_from_critique_def Let_def fallback_get scan_scores_fallback as_number_def
      limit_areas_bounds update_average_simps)

text \<open>
  Inside a turn: when the critic fails on the reply of the turn, the turn returns the
  reply with the fallback as its critique, and the average has moved with the score 7.
\<close>

lemma chat_with_failed_critique:
  assumes "case critic_invoke e [SystemMessage (str ''Sei un critico obiettivo e preciso.''),
                                  HumanMessage (critique_prompt um (chat_reply e s um))] of
             Inl err \<Rightarrow> True
           | Inr raw \<Rightarrow> json_loads e (extract_json_str raw) = None"
    and "conversation_count (user_profile s) + 1 \<noteq> 0"
  shows "\<exists>md. fst (chat e s fs um True) = Returned (chat_reply e s um) md
              \<and> md_critique md = fallback_critique"
    and "avg_response_score (quality_metrics (user_profile (fst (snd (chat e s fs um True)))))
         = (avg_response_score (quality_metrics (user_profile s))
              * of_int (conversation_count (user_profile s)) + 7)
           / of_int (conversation_count (user_profile s) + 1)"
proof -
  let ?p = "(analyze_user_message (str_lower e) um (user_profile s))
              \<lparr>conversation_count := conversation_count (user_profile s) + 1\<rparr>"
  have fb: "critique_response (critic_invoke e) (json_loads e) um (chat_reply e s um)
            = fallback_critique"
    using assms(1) by (auto simp: critique_response_def split: sum.splits)
  have p: "conversation_count ?p \<noteq> 0" using assms(2) by simp
  show "\<exists>md. fst (chat e s fs um True) = Returned (chat_reply e s um) md
              \<and> md_critique md = fallback_critique"
    unfolding chat_outcome_learning fb learn_fallback(1) [OF p] by simp
  show "avg_response_score (quality_metrics (user_profile (fst (snd (chat e s fs um True)))))
         = (avg_response_score (quality_metrics (user_profile s))
              * of_int (conversation_count (user_profile s)) + 7)
           / of_int (conversation_count (user_profile s) + 1)"
    unfolding chat_profile_learning fb learn_fallback(2) [OF p]
    by (simp add: analyze_keeps_metrics)
qed



section \<open>The history of a turn\<close>

lemma save_memory_written:
  "file_write e = Written \<Longrightarrow>
     \<exists>d. save_memory e s fs (save_file s) = Some (Json d)
       \<and> sd_chat_history d = Some (map (save_message e) (last_n 50 (chat_history s)))"
  by (simp add: save_memory_def Let_def)

text \<open>
  C10. Every call of \<^verbatim>\<open>chat\<close> leaves the history of the instance extended by exactly the
  user message and then the assistant message, whose text is the reply of the turn (the
  generated text or the synthesized error text), whether the call returns or raises; the
  history is cut nowhere. The generalist is sent the system messages and the last ten
  messages of the history with the new user message; a save that writes the file writes
  the last fifty.
\<close>

theorem chat_appends_two_messages:
  "chat_history (fst (snd (chat e s fs um crit)))
     = chat_history s @ [HumanMessage um, AIMessage (chat_reply e s um)]
   \<and> ((\<exists>md. fst (chat e s fs um crit) = Returned (chat_reply e s um) md)
        \<or> (\<exists>x. fst (chat e s fs um crit) = Raised x))
   \<and> chat_reply e s um =
       generate e ([SystemMessage (get_system_prompt e (snd (chat_routed e s um)))]
                   @ consulenza (fst (chat_routed e s um))
                   @ last_n 10 (chat_history s @ [HumanMessage um]))
   \<and> (\<forall>err. model_invoke e ([SystemMessage (get_system_prompt e (snd (chat_routed e s um)))]
                   @ consulenza (fst (chat_routed e s um))
                   @ last_n 10 (chat_history s @ [HumanMessage um])) = Inl err
          \<longrightarrow> chat_reply e s um = [10060] @ str '' Errore generazione risposta: '' @ err)
   \<and> (file_write e = Written \<longrightarrow>
        (\<exists>d. save_memory e s0 fs0 (save_file s0) = Some (Json d)
           \<and> sd_chat_history d = Some (map (save_message e) (last_n 50 (chat_history s0)))))"
proof (intro conjI allI impI)
  show "chat_history (fst (snd (chat e s fs um crit)))
     = chat_history s @ [HumanMessage um, AIMessage (chat_reply e s um)]"
    by (rule chat_history_after)
  show "(\<exists>md. fst (chat e s fs um crit) = Returned (chat_reply e s um) md)
        \<or> (\<exists>x. fst (chat e s fs um crit) = Raised x)"
    by (rule chat_outcome_reply)
  show m: "chat_reply e s um =
       generate e ([SystemMessage (get_system_prompt e (snd (chat_routed e s um)))]
                   @ consulenza (fst (chat_routed e s um))
                   @ last_n 10 (chat_history s @ [HumanMessage um]))"
    by (rule chat_reply_messages)
  show "chat_reply e s um = [10060] @ str '' Errore generazione risposta: '' @ err"
    if "model_invoke e ([SystemMessage (get_system_prompt e (snd (chat_routed e s um)))]
                   @ consulenza (fst (chat_routed e s um))
                   @ last_n 10 (chat_history s @ [HumanMessage um])) = Inl err" for err
    using that unfolding m by (simp add: generate_def)
  show "\<exists>d. save_memory e s0 fs0 (save_file s0) = Some (Json d)
           \<and> sd_chat_history d = Some (map (save_message e) (last_n 50 (chat_history s0)))"
    if "file_write e = Written"
    using that by (rule save_memory_written)
qed

theorem chat_appends_two_messages_witness:
  "chat_history (fst (snd (chat failing_model_env (fresh None) Map.empty (str ''ciao'') False)))
     = [HumanMessage (str ''ciao''),
        AIMessage ([10060] @ str '' Errore generazione risposta: '' @ str ''rate limit'')]
   \<and> file_write failing_model_env = Written
   \<and> (\<exists>d. save_memory failing_model_env (fresh None) Map.empty (save_file (fresh None))
             = Some (Json d)
          \<and> sd_chat_history d
             = Some (map (save_message failing_model_env) (last_n 50 (chat_history (fresh None)))))"
proof -
  let ?e = failing_model_env
  note t = chat_appends_two_messages [of ?e "fresh None" Map.empty "str ''ciao''" False
             "fresh None" Map.empty]
  have w: "file_write ?e = Written"
    by (simp add: failing_model_env_def sample_env_def)
  have i: "model_invoke ?e ms = Inl (str ''rate limit'')" for ms
    by (simp add: failing_model_env_def sample_env_def)
  from t i have r: "chat_reply ?e (fresh None) (str ''ciao'')
                    = [10060] @ str '' Errore generazione risposta: '' @ str ''rate limit''"
    by blast
  from t have h: "chat_history (fst (snd (chat ?e (fresh None) Map.empty (str ''ciao'') False)))
     = chat_history (fresh None) @ [HumanMessage (str ''ciao''),
          AIMessage (chat_reply ?e (fresh None) (str ''ciao''))]"
    by (rule conjunct1)
  have f: "chat_history (fresh None) = []" by (simp add: fresh_def)
  from t w have sv: "\<exists>d. save_memory ?e (fresh None) Map.empty (save_file (fresh None))
             = Some (Json d)
          \<and> sd_chat_history d
             = Some (map (save_message ?e) (last_n 50 (chat_history (fresh None))))"
    by blast
  from h r f w sv show ?thesis by (simp only: append_Nil simp_thms)
qed

section \<open>Failures inside a turn\<close>

lemma learn_not_a_dict: "learn_from_critique (JArr xs) p = (Some AttributeError, p)"
  by (simp add: learn_from_critique_def dict_get_def)

text \<open>
  C2. A failed generation, consultation or write does not leave the turn (with the
  critique off the turn always returns, \<open>chat_without_critique_returns\<close>), and a critic
  that raises or answers with unparsable text is replaced by the fallback. A critic
  that answers with JSON that is no object is not: \<^verbatim>\<open>[]\<close> parses, \<^verbatim>\<open>critique.get\<close>
  raises \<^verbatim>\<open>AttributeError\<close> in \<^verbatim>\<open>_learn_from_critique\<close>, and the turn raises instead of
  returning the response.
\<close>

theorem chat_raises_on_array_critique:
  "fst (chat array_env (fresh None) Map.empty (str ''ciao'') True) = Raised AttributeError"
proof -
  have c: "critique_response (critic_invoke array_env) (json_loads array_env) (str ''ciao'') ar
           = JArr []" for ar
    unfolding array_env_def sample_critique extract_array by simp
  show ?thesis
    unfolding chat_outcome_learning c learn_not_a_dict by simp
qed

section \<open>The average score\<close>

lemma learn_score_only:
  assumes "conversation_count p \<noteq> 0"
  shows "learn_from_critique (JObj [(str ''overall_score'', JNum x)]) p
         = (None, p\<lparr>quality_metrics := limit_areas (update_average x p)\<rparr>)"
  using assms
  by (simp add: learn_from_critique_def dict_get_def as_number_def Let_def str_simps)

lemma turn_unscored:
  "avg_response_score (quality_metrics (user_profile (fst (turn e um False w))))
     = avg_response_score (quality_metrics (user_profile (fst w)))"
  "conversation_count (user_profile (fst (turn e um False w)))
     = conversation_count (user_profile (fst w)) + 1"
  "improvement_trend (quality_metrics (user_profile (fst (turn e um False w))))
     = improvement_trend (quality_metrics (user_profile (fst w)))"
  by (simp_all add: turn_def chat_profile_no_critique analyze_keeps_metrics)

lemma turn_scored:
  assumes "critique_response (critic_invoke e) (json_loads e) um (chat_reply e (fst w) um)
           = JObj [(str ''overall_score'', JNum x)]"
    and "conversation_count (user_profile (fst w)) + 1 \<noteq> 0"
  shows "avg_response_score (quality_metrics (user_profile (fst (turn e um True w))))
         = (avg_response_score (quality_metrics (user_profile (fst w)))
              * of_int (conversation_count (user_profile (fst w))) + x)
           / of_int (conversation_count (user_profile (fst w)) + 1)"
    and "conversation_count (user_profile (fst (turn e um True w)))
         = conversation_count (user_profile (fst w)) + 1"
    and "fst (chat e (fst w) (snd w) um True) \<noteq> Raised err"
    and "improvement_trend (quality_metrics (user_profile (fst (turn e um True w))))
         = (if length (improvement_trend (quality_metrics (user_profile (fst w)))) \<ge> 20
            then last_n 20 (improvement_trend (quality_metrics (user_profile (fst w))) @ [x])
            else improvement_trend (quality_metrics (user_profile (fst w))) @ [x])"
proof -
  let ?p = "(analyze_user_message (str_lower e) um (user_profile (fst w)))
              \<lparr>conversation_count := conversation_count (user_profile (fst w)) + 1\<rparr>"
  have p: "conversation_count ?p \<noteq> 0" using assms(2) by simp
  have u: "user_profile (fst (turn e um True w))
           = ?p\<lparr>quality_metrics := limit_areas (update_average x ?p)\<rparr>"
    unfolding turn_def chat_profile_learning assms(1) learn_score_only [OF p] by simp
  show "avg_response_score (quality_metrics (user_profile (fst (turn e um True w))))
         = (avg_response_score (quality_metrics (user_profile (fst w)))
              * of_int (conversation_count (user_profile (fst w))) + x)
           / of_int (conversation_count (user_profile (fst w)) + 1)"
    unfolding u by (simp add: limit_areas_bounds update_average_simps analyze_keeps_metrics)
  show "conversation_count (user_profile (fst (turn e um True w)))
         = conversation_count (user_profile (fst w)) + 1"
    unfolding u by simp
  show "fst (chat e (fst w) (snd w) um True) \<noteq> Raised err"
    unfolding chat_outcome_learning assms(1) learn_score_only [OF p] by simp
  show "improvement_trend (quality_metrics (user_profile (fst (turn e um True w))))
         = (if length (improvement_trend (quality_metrics (user_profile (fst w)))) \<ge> 20
            then last_n 20 (improvement_trend (quality_metrics (user_profile (fst w))) @ [x])
            else improvement_trend (quality_metrics (user_profile (fst w))) @ [x])"
    unfolding u
    by (simp add: limit_areas_bounds update_average_def Let_def analyze_keeps_metrics)
qed

lemma scoring_critique:
  "critique_response (critic_invoke (scoring_env (str ''8'') x)) (json_loads (scoring_env (str ''8'') x))
      um ar = JObj [(str ''overall_score'', JNum x)]"
  "critique_response (critic_invoke (scoring_env (str ''6'') x)) (json_loads (scoring_env (str ''6'') x))
      um ar = JObj [(str ''overall_score'', JNum x)]"
  "critique_response (critic_invoke (scoring_env (str ''10'') x)) (json_loads (scoring_env (str ''10'') x))
      um ar = JObj [(str ''overall_score'', JNum x)]"
  unfolding scoring_env_def sample_critique extract_score_reply by simp_all

lemma fresh_profile:
  "avg_response_score (quality_metrics (user_profile (fresh k))) = 0"
  "conversation_count (user_profile (fresh k)) = 0"
  "improvement_trend (quality_metrics (user_profile (fresh k))) = []"
  by (simp_all add: fresh_def init_user_profile_def)

text \<open>Three critiqued turns scored 8, 6 and 10 on a fresh instance: the average is 8.\<close>

lemma average_of_three_turns:
  "avg_response_score (quality_metrics (user_profile (fst
     (turn (scoring_env (str ''10'') 10) (str ''ciao'') True
       (turn (scoring_env (str ''6'') 6) (str ''ciao'') True
         (turn (scoring_env (str ''8'') 8) (str ''ciao'') True (fresh None, Map.empty))))))) = 8"
proof -
  let ?w0 = "(fresh None, Map.empty :: files)"
  let ?w1 = "turn (scoring_env (str ''8'') 8) (str ''ciao'') True ?w0"
  let ?w2 = "turn (scoring_env (str ''6'') 6) (str ''ciao'') True ?w1"
  let ?w3 = "turn (scoring_env (str ''10'') 10) (str ''ciao'') True ?w2"
  have 1: "avg_response_score (quality_metrics (user_profile (fst ?w1))) = 8"
          "conversation_count (user_profile (fst ?w1)) = 1"
    using turn_scored(1,2) [of "scoring_env (str ''8'') 8" "str ''ciao''" ?w0 8]
    by (simp_all add: scoring_critique fresh_profile)
  have 2: "avg_response_score (quality_metrics (user_profile (fst ?w2))) = 7"
          "conversation_count (user_profile (fst ?w2)) = 2"
    using turn_scored(1,2) [of "scoring_env (str ''6'') 6" "str ''ciao''" ?w1 6]
    by (simp_all add: scoring_critique 1)
  show ?thesis
    using turn_scored(1) [of "scoring_env (str ''10'') 10" "str ''ciao''" ?w2 10]
    by (simp add: scoring_critique 2)
qed

text \<open>
  C3. The average divides by \<^verbatim>\<open>conversation_count\<close>, which counts every turn, not by the
  number of critiques: after a first turn with the critique switched off and a second
  turn scored 8, the only score received is 8 and the average is 4.
\<close>

theorem average_after_skipped_critique:
  "avg_response_score (quality_metrics (user_profile (fst
     (turn (scoring_env (str ''8'') 8) (str ''ciao'') True
       (turn silent_critic_env (str ''ciao'') False (fresh None, Map.empty)))))) = 4
   \<and> improvement_trend (quality_metrics (user_profile (fst
     (turn (scoring_env (str ''8'') 8) (str ''ciao'') True
       (turn silent_critic_env (str ''ciao'') False (fresh None, Map.empty)))))) = [8]"
proof -
  let ?w0 = "(fresh None, Map.empty :: files)"
  let ?w1 = "turn silent_critic_env (str ''ciao'') False ?w0"
  let ?e = "scoring_env (str ''8'') 8"
  have 1: "avg_response_score (quality_metrics (user_profile (fst ?w1))) = 0"
          "conversation_count (user_profile (fst ?w1)) = 1"
          "improvement_trend (quality_metrics (user_profile (fst ?w1))) = []"
    by (simp_all add: turn_unscored fresh_profile)
  have a: "avg_response_score (quality_metrics (user_profile (fst (turn ?e (str ''ciao'') True ?w1)))) = 4"
    using turn_scored(1) [of ?e "str ''ciao''" ?w1 8]
    by (simp add: scoring_critique 1)
  have b: "improvement_trend (quality_metrics (user_profile (fst (turn ?e (str ''ciao'') True ?w1)))) = [8]"
    using turn_scored(4) [of ?e "str ''ciao''" ?w1 8]
    by (simp add: scoring_critique 1)
  from a b show ?thesis by (rule conjI)
qed

section \<open>Memory store: save, then load\<close>

lemma load_save_message:
  "(\<exists>c. m = HumanMessage c) \<or> (\<exists>c. m = AIMessage c) \<Longrightarrow> load_message (save_message e m) = m"
  by (auto simp: load_message_def save_message_def str_simps)

lemma fresh_constructed:
  "MavkusAI_init silent_critic_env Map.empty (str ''u1'') (Some (str ''gsk'')) k = Inr (fresh k)"
  by (simp add: MavkusAI_init_def silent_critic_env_def sample_env_def truthy_def load_memory_def
      fresh_def str_simps)

text \<open>
  C8. A save that writes the file, followed by a load into an instance of the same user,
  gives back the profile, the routing statistics, the learned patterns and the chat
  messages of the saved instance, for every instance whose history has at most fifty
  messages, all of them user or assistant messages; the freshly constructed instance is
  one of them. The timestamps written with the messages are not read back.
\<close>

theorem save_load_roundtrip:
  assumes "file_write e = Written"
    and "length (chat_history s) \<le> 50"
    and "\<forall>m \<in> set (chat_history s). (\<exists>c. m = HumanMessage c) \<or> (\<exists>c. m = AIMessage c)"
    and "save_file s' = save_file s"
  shows "user_profile (load_memory s' (save_memory e s fs)) = user_profile s
       \<and> routing_stats (load_memory s' (save_memory e s fs)) = routing_stats s
       \<and> learned_patterns (load_memory s' (save_memory e s fs)) = learned_patterns s
       \<and> chat_history (load_memory s' (save_memory e s fs)) = chat_history s"
proof -
  have "map load_message (map (save_message e) (chat_history s)) = chat_history s"
    using assms(3) by (induction "chat_history s") (auto simp: load_save_message map_idI)
  then show ?thesis
    using assms(1,2,4)
    by (simp add: load_memory_def save_memory_def Let_def last_n_short)
qed

theorem save_load_roundtrip_witness:
  "MavkusAI_init silent_critic_env Map.empty (str ''u1'') (Some (str ''gsk'')) None
     = Inr (fresh None)
   \<and> file_write silent_critic_env = Written
   \<and> user_profile (load_memory (fresh None) (save_memory silent_critic_env (fresh None) Map.empty))
       = user_profile (fresh None)
   \<and> routing_stats (load_memory (fresh None) (save_memory silent_critic_env (fresh None) Map.empty))
       = routing_stats (fresh None)
   \<and> chat_history (load_memory (fresh None) (save_memory silent_critic_env (fresh None) Map.empty))
       = chat_history (fresh None)"
proof -
  have w: "file_write silent_critic_env = Written"
    by (simp add: silent_critic_env_def sample_env_def)
  have h: "chat_history (fresh None) = []" by (simp add: fresh_def)
  have l: "length (chat_history (fresh None)) \<le> 50"
    and m: "\<forall>m \<in> set (chat_history (fresh None)). (\<exists>c. m = HumanMessage c) \<or> (\<exists>c. m = AIMessage c)"
    by (simp_all add: h)
  from save_load_roundtrip [OF w l m refl, of Map.empty] fresh_constructed [of None] w
  show ?thesis by blast
qed

section \<open>Routing statistics: the success rate field\<close>

lemma chat_gemini:
  "gemini (fst (snd (chat e s fs um crit))) = gemini (snd (chat_routed e s um))"
  by (simp add: chat_unfold Let_def chat_finish_state split: option.splits)

lemma chat_routed_gemini:
  assumes "should_route_to_gemini (str_lower e) um" "available (gemini s)"
  shows "gemini (snd (chat_routed e s um))
         = snd (consult (generate_content e) (gemini s) um
                  (str ''Stile: '' @ style (user_profile (chat_begin e s um))))"
  using assms
  by (simp add: chat_routed_def chat_route_def chat_begin_simps Let_def case_prod_beta)

lemma route_fisica: "should_route_to_gemini ascii_lower (str ''fisica'')"
  by (simp add: should_route_to_gemini_def science_count_def science_keywords_def
      strong_signals_def ascii_lower_def str_simps)

text \<open>
  C9. The field \<open>gemini_success_rate\<close> of the routing statistics is not recomputed from
  the adapter: \<^verbatim>\<open>_init_routing_stats\<close> sets it to 0, the system prompt prints it as the
  success of the specialist, and no statement assigns it again. After a first turn that
  is routed and answered by the specialist the adapter's rate is 100 and the field is
  still 0.
\<close>

theorem routing_rate_not_recomputed:
  "success_rate (gemini (fst (snd
      (chat silent_critic_env (fresh (Some (str ''key''))) Map.empty (str ''fisica'') False)))) = 100
   \<and> gemini_success_rate (routing_stats (fst (snd
      (chat silent_critic_env (fresh (Some (str ''key''))) Map.empty (str ''fisica'') False)))) = 0"
proof -
  let ?e = silent_critic_env
  let ?s = "fresh (Some (str ''key''))"
  have l: "str_lower ?e = ascii_lower" and g: "generate_content ?e = (\<lambda>prompt. Inr (str ''consulenza''))"
    by (simp_all add: silent_critic_env_def sample_env_def)
  have r: "should_route_to_gemini (str_lower ?e) (str ''fisica'')"
    unfolding l by (rule route_fisica)
  have a: "available (gemini ?s)"
    by (simp add: fresh_def GeminiSpecialist_init_def truthy_def str_simps)
  have "success_rate (gemini (fst (snd (chat ?e ?s Map.empty (str ''fisica'') False)))) = 100"
    unfolding chat_gemini chat_routed_gemini [OF r a] g
    by (simp add: consult_def success_rate_def fresh_def GeminiSpecialist_init_def truthy_def
        Let_def str_simps)
  moreover have "gemini_success_rate (routing_stats (fst (snd
      (chat ?e ?s Map.empty (str ''fisica'') False)))) = 0"
    unfolding chat_rate_untouched by (simp add: fresh_def init_routing_stats_def)
  ultimately show ?thesis by (rule conjI)
qed

section \<open>Instance cache: saving credentials\<close>

lemma save_api_keys_cache: "cache (snd (save_api_keys b srv request)) = cache srv"
  by (simp add: save_api_keys_def Let_def case_prod_beta)

lemma save_api_keys_answer: "fst (save_api_keys b srv request) = HTTPException 500"
  by (simp add: save_api_keys_def Let_def case_prod_beta)

lemma save_api_keys_users:
  "users (snd (save_api_keys b srv request))
     = snd (firebase_save_api_keys b (users srv) (req_user_id request)
              \<lparr>groq_api_key = (if truthy (req_groq_api_key request)
                                 then req_groq_api_key request else None),
                gemini_api_key = (if truthy (req_gemini_api_key request)
                                   then req_gemini_api_key request else None)\<rparr>)"
  by (simp add: save_api_keys_def Let_def case_prod_beta)

lemma create_ai_instance_hit:
  "map_of (cache srv) uid = Some ai \<Longrightarrow> fst (create_ai_instance e b srv uid) = Ok ai"
  by (simp add: create_ai_instance_def)

lemma sample_server_first_request:
  "\<exists>ai. cache (snd (create_ai_instance silent_critic_env sample_backend sample_server (str ''u1'')))
          = [(str ''u1'', ai)] \<and> groq_key ai = str ''old''"
  by (simp add: create_ai_instance_def sample_server_def sample_backend_def
      firebase_get_api_keys_def service_decrypt_def MavkusAI_init_def silent_critic_env_def
      sample_env_def truthy_def load_memory_def Let_def str_simps)

lemma sample_server_users:
  "users (snd (create_ai_instance silent_critic_env sample_backend sample_server (str ''u1'')))
     = users sample_server"
  by (simp add: create_ai_instance_def Let_def split: option.splits sum.splits)

text \<open>
  C4. The endpoint calls \<^verbatim>\<open>cache_clear\<close> on \<^verbatim>\<open>get_ai_instance\<close>, which has no such
  attribute; the memoized instances are those of \<^verbatim>\<open>_create_ai_instance\<close>. After a first
  request has memoized the instance of the user, a save of a new Groq credential writes
  the store, is answered with status 500, leaves the cache as it was, and the next
  request is served by the instance built with the old credential.
\<close>

theorem save_keys_leaves_stale_instance:
  "fst (save_api_keys sample_backend
          (snd (create_ai_instance silent_critic_env sample_backend sample_server (str ''u1'')))
          new_key_request) = HTTPException 500
   \<and> groq_api_key (firebase_get_api_keys sample_backend
        (users (snd (save_api_keys sample_backend
          (snd (create_ai_instance silent_critic_env sample_backend sample_server (str ''u1'')))
          new_key_request))) (str ''u1'')) = Some (str ''new'')
   \<and> cache (snd (save_api_keys sample_backend
          (snd (create_ai_instance silent_critic_env sample_backend sample_server (str ''u1'')))
          new_key_request))
      = cache (snd (create_ai_instance silent_critic_env sample_backend sample_server (str ''u1'')))
   \<and> (\<exists>ai. fst (create_ai_instance silent_critic_env sample_backend
          (snd (save_api_keys sample_backend
             (snd (create_ai_instance silent_critic_env sample_backend sample_server (str ''u1'')))
             new_key_request)) (str ''u1'')) = Ok ai
         \<and> groq_key ai = str ''old'')"
proof -
  let ?s1 = "snd (create_ai_instance silent_critic_env sample_backend sample_server (str ''u1''))"
  let ?s2 = "snd (save_api_keys sample_backend ?s1 new_key_request)"
  obtain ai where c1: "cache ?s1 = [(str ''u1'', ai)]" and old: "groq_key ai = str ''old''"
    using sample_server_first_request by blast
  have c2: "cache ?s2 = cache ?s1" by (rule save_api_keys_cache)
  have "map_of (cache ?s2) (str ''u1'') = Some ai"
    unfolding c2 c1 by simp
  then have hit: "fst (create_ai_instance silent_critic_env sample_backend ?s2 (str ''u1'')) = Ok ai"
    by (rule create_ai_instance_hit)
  have new: "groq_api_key (firebase_get_api_keys sample_backend (users ?s2) (str ''u1''))
             = Some (str ''new'')"
    unfolding save_api_keys_users sample_server_users
    by (simp add: new_key_request_def sample_server_def sample_backend_def
        firebase_save_api_keys_def firebase_get_api_keys_def service_decrypt_def truthy_def
        Let_def str_simps)
  from save_api_keys_answer new c2 hit old show ?thesis by blast
qed

end
